theory Spec2Isabelle
  imports Main
begin

section \<open>Schema nodes and option descriptors\<close>

text \<open>
  The program (\<^verbatim>\<open>src/index.ts\<close>) walks the definition tree of a zod schema and
  projects the fields of an object schema into a flat list of option descriptors
  (\<^verbatim>\<open>OptionInfo\<close>), from which the configuration of the argument tokenizer is built.

  \<^verbatim>\<open>ZodFirstPartyTypeKind\<close> is the discriminant \<^verbatim>\<open>_def.typeName\<close> of a node. The
  program names eleven of its members; the remaining members of the library's
  enumeration are the parameter \<open>'k\<close>.
\<close>

datatype 'k zodFirstPartyTypeKind =
    ZodEffects | ZodObject | ZodOptional | ZodString | ZodNumber | ZodBoolean
  | ZodEnum | ZodNativeEnum | ZodDefault | ZodIntersection | ZodAny
  | ZodOtherKind 'k

text \<open>
  The value of a member of a native enum (a number or a string). The program never
  reads it.
\<close>

datatype enumValue = NumericValue int | StringValue string

text \<open>
  \<^verbatim>\<open>ZodTypeDef\<close>: the \<^verbatim>\<open>_def\<close> of a schema node, one constructor per discriminant, with
  the payload the program reads. The first argument of every constructor is the
  property \<^verbatim>\<open>_def.alias\<close> as it is when \<^verbatim>\<open>schemaToOptions\<close> runs (\<open>None\<close> when it
  is undefined): \<^verbatim>\<open>alias(alias, type)\<close> assigns it in place, at the time the schema is
  defined.
  \<^item> \<open>ZodEffectsDef\<close>: \<^verbatim>\<open>schema\<close>, the refined schema (the refinement itself is not read);
  \<^item> \<open>ZodObjectDef\<close>: the properties of \<^verbatim>\<open>shape()\<close>, as the list of keys and schemas
    in the order in which \<^verbatim>\<open>for (const key in properties)\<close> enumerates them;
  \<^item> \<open>ZodOptionalDef\<close>, \<open>ZodDefaultDef\<close>: \<^verbatim>\<open>innerType\<close> (the default value is not read);
  \<^item> \<open>ZodEnumDef\<close>: the array \<^verbatim>\<open>values\<close>;
  \<^item> \<open>ZodNativeEnumDef\<close>: the object \<^verbatim>\<open>values\<close>, as the list of its own properties
    in the order of \<^verbatim>\<open>Object.getOwnPropertyNames\<close>;
  \<^item> \<open>ZodIntersectionDef\<close>: \<^verbatim>\<open>left\<close> and \<^verbatim>\<open>right\<close>;
  \<^item> \<open>ZodOtherDef\<close>: a node of any other kind; its payload is never read.
  A value of this type is a finite tree. A definition object that several fields share
  is in the tree once for each of them, with the one alias it has. Object graphs with
  a cycle are not trees; they are stores, below.
\<close>

datatype 'k zodTypeDef =
    ZodEffectsDef "string option" "'k zodTypeDef"
  | ZodObjectDef "string option" "(string \<times> 'k zodTypeDef) list"
  | ZodOptionalDef "string option" "'k zodTypeDef"
  | ZodStringDef "string option"
  | ZodNumberDef "string option"
  | ZodBooleanDef "string option"
  | ZodEnumDef "string option" "string list"
  | ZodNativeEnumDef "string option" "(string \<times> enumValue) list"
  | ZodDefaultDef "string option" "'k zodTypeDef"
  | ZodIntersectionDef "string option" "'k zodTypeDef" "'k zodTypeDef"
  | ZodAnyDef "string option"
  | ZodOtherDef "string option" 'k

fun typeName :: "'k zodTypeDef \<Rightarrow> 'k zodFirstPartyTypeKind" where
  "typeName (ZodEffectsDef a schema) = ZodEffects"
| "typeName (ZodObjectDef a shape) = ZodObject"
| "typeName (ZodOptionalDef a innerType) = ZodOptional"
| "typeName (ZodStringDef a) = ZodString"
| "typeName (ZodNumberDef a) = ZodNumber"
| "typeName (ZodBooleanDef a) = ZodBoolean"
| "typeName (ZodEnumDef a values) = ZodEnum"
| "typeName (ZodNativeEnumDef a values) = ZodNativeEnum"
| "typeName (ZodDefaultDef a innerType) = ZodDefault"
| "typeName (ZodIntersectionDef a left right) = ZodIntersection"
| "typeName (ZodAnyDef a) = ZodAny"
| "typeName (ZodOtherDef a k) = ZodOtherKind k"

text \<open>The property \<^verbatim>\<open>_def.alias\<close> of a node.\<close>

fun defAlias :: "'k zodTypeDef \<Rightarrow> string option" where
  "defAlias (ZodEffectsDef a schema) = a"
| "defAlias (ZodObjectDef a shape) = a"
| "defAlias (ZodOptionalDef a innerType) = a"
| "defAlias (ZodStringDef a) = a"
| "defAlias (ZodNumberDef a) = a"
| "defAlias (ZodBooleanDef a) = a"
| "defAlias (ZodEnumDef a values) = a"
| "defAlias (ZodNativeEnumDef a values) = a"
| "defAlias (ZodDefaultDef a innerType) = a"
| "defAlias (ZodIntersectionDef a left right) = a"
| "defAlias (ZodAnyDef a) = a"
| "defAlias (ZodOtherDef a k) = a"

text \<open>
  \<^verbatim>\<open>interface OptionInfo\<close>. The optional properties \<^verbatim>\<open>alias\<close> and \<^verbatim>\<open>autocomplete\<close> are
  \<open>None\<close> when absent.
\<close>

datatype optionType = TString | TBoolean | TNumber

record optionInfo =
  name :: string
  "alias" :: "string option"
  required :: bool
  autocomplete :: "string list option"
  type :: optionType

section \<open>The handlers of the node kinds\<close>

text \<open>
  Every handler has the parameters \<^verbatim>\<open>(def, options, currentOption?)\<close> and returns the next
  definition to resolve or \<^verbatim>\<open>undefined\<close>. The array \<^verbatim>\<open>options\<close> and the object
  \<^verbatim>\<open>currentOption\<close> are mutable: a handler of the model takes the payload of its node,
  the array and the descriptor in progress (\<open>None\<close> when the argument is omitted) and
  returns the next definition together with the array and the descriptor as it leaves
  them.
\<close>

type_synonym 'k parseResult = "'k zodTypeDef option \<times> optionInfo list \<times> optionInfo option"

definition parseEffect ::
  "'k zodTypeDef \<Rightarrow> optionInfo list \<Rightarrow> optionInfo option \<Rightarrow> 'k parseResult" where
  "parseEffect schema options currentOption = (Some schema, options, currentOption)"

definition parseIntersection ::
  "'k zodTypeDef \<Rightarrow> 'k zodTypeDef \<Rightarrow> optionInfo list \<Rightarrow> optionInfo option \<Rightarrow> 'k parseResult" where
  "parseIntersection left right options currentOption =
     (if typeName left \<noteq> ZodAny then (Some left, options, currentOption)
      else if typeName right \<noteq> ZodAny then (Some right, options, currentOption)
      else (None, options, currentOption))"

definition parseString :: "optionInfo list \<Rightarrow> optionInfo option \<Rightarrow> 'k parseResult" where
  "parseString options currentOption =
     (None, options,
      case currentOption of
        Some option \<Rightarrow> Some (option\<lparr>type := TString\<rparr>)
      | None \<Rightarrow> None)"

definition parseNumber :: "optionInfo list \<Rightarrow> optionInfo option \<Rightarrow> 'k parseResult" where
  "parseNumber options currentOption =
     (None, options,
      case currentOption of
        Some option \<Rightarrow> Some (option\<lparr>type := TNumber\<rparr>)
      | None \<Rightarrow> None)"

definition parseBoolean :: "optionInfo list \<Rightarrow> optionInfo option \<Rightarrow> 'k parseResult" where
  "parseBoolean options currentOption =
     (None, options,
      case currentOption of
        Some option \<Rightarrow> Some (option\<lparr>type := TBoolean\<rparr>)
      | None \<Rightarrow> None)"

definition parseOptional ::
  "'k zodTypeDef \<Rightarrow> optionInfo list \<Rightarrow> optionInfo option \<Rightarrow> 'k parseResult" where
  "parseOptional innerType options currentOption =
     (Some innerType, options,
      case currentOption of
        Some option \<Rightarrow> Some (option\<lparr>required := False\<rparr>)
      | None \<Rightarrow> None)"

definition parseDefault ::
  "'k zodTypeDef \<Rightarrow> optionInfo list \<Rightarrow> optionInfo option \<Rightarrow> 'k parseResult" where
  "parseDefault innerType options currentOption = (Some innerType, options, currentOption)"

definition parseEnum ::
  "string list \<Rightarrow> optionInfo list \<Rightarrow> optionInfo option \<Rightarrow> 'k parseResult" where
  "parseEnum values options currentOption =
     (None, options,
      case currentOption of
        Some option \<Rightarrow> Some (option\<lparr>type := TString, autocomplete := Some values\<rparr>)
      | None \<Rightarrow> None)"

definition parseNativeEnum ::
  "(string \<times> enumValue) list \<Rightarrow> optionInfo list \<Rightarrow> optionInfo option \<Rightarrow> 'k parseResult" where
  "parseNativeEnum values options currentOption =
     (None, options,
      case currentOption of
        Some option \<Rightarrow> Some (option\<lparr>type := TString, autocomplete := Some (map fst values)\<rparr>)
      | None \<Rightarrow> None)"

section \<open>The resolution loop\<close>

text \<open>
  \<^verbatim>\<open>getParseFn\<close> selects the handler of a discriminant; its \<^verbatim>\<open>default\<close> branch returns
  \<^verbatim>\<open>undefined\<close>.
\<close>

datatype parseFn =
    ParseEffect | ParseObject | ParseOptional | ParseString | ParseNumber | ParseBoolean
  | ParseEnum | ParseNativeEnum | ParseDefault | ParseIntersection

fun getParseFn :: "'k zodFirstPartyTypeKind \<Rightarrow> parseFn option" where
  "getParseFn ZodEffects = Some ParseEffect"
| "getParseFn ZodObject = Some ParseObject"
| "getParseFn ZodOptional = Some ParseOptional"
| "getParseFn ZodString = Some ParseString"
| "getParseFn ZodNumber = Some ParseNumber"
| "getParseFn ZodBoolean = Some ParseBoolean"
| "getParseFn ZodEnum = Some ParseEnum"
| "getParseFn ZodNativeEnum = Some ParseNativeEnum"
| "getParseFn ZodDefault = Some ParseDefault"
| "getParseFn ZodIntersection = Some ParseIntersection"
| "getParseFn _ = None"

text \<open>
  \<^verbatim>\<open>parseDef\<close> is the loop
  \<^verbatim>\<open>do { parse = getParseFn(typeName); if (!parse) break;
       parsedDef = parse(parsedDef, options, currentOption); if (!parsedDef) break; }
   while (parsedDef)\<close>.
  One equation per discriminant applies the handler \<^verbatim>\<open>getParseFn\<close> selects and goes on
  with the definition it returns; the last two equations are the \<^verbatim>\<open>break\<close> on a
  discriminant without a handler. \<open>parseDef\<close> returns the array \<^verbatim>\<open>options\<close> and the
  descriptor \<^verbatim>\<open>currentOption\<close> as the loop leaves them.

  \<^verbatim>\<open>parseObject\<close> is the loop over the properties of the shape: it creates the descriptor
  of the property, resolves the property's definition with that descriptor in progress
  and pushes the descriptor onto \<^verbatim>\<open>options\<close>. It returns \<^verbatim>\<open>undefined\<close>, so \<open>parseDef\<close>
  stops after it; the model's function returns the array.
\<close>

function parseDef ::
    "'k zodTypeDef \<Rightarrow> optionInfo list \<Rightarrow> optionInfo option \<Rightarrow> optionInfo list \<times> optionInfo option"
  and parseObject ::
    "(string \<times> 'k zodTypeDef) list \<Rightarrow> optionInfo list \<Rightarrow> optionInfo list"
where
  "parseDef (ZodEffectsDef a schema) options currentOption =
     (case parseEffect schema options currentOption of
        (Some parsedDef, options', currentOption') \<Rightarrow> parseDef parsedDef options' currentOption'
      | (None, options', currentOption') \<Rightarrow> (options', currentOption'))"
| "parseDef (ZodObjectDef a shape) options currentOption =
     (parseObject shape options, currentOption)"
| "parseDef (ZodOptionalDef a innerType) options currentOption =
     (case parseOptional innerType options currentOption of
        (Some parsedDef, options', currentOption') \<Rightarrow> parseDef parsedDef options' currentOption'
      | (None, options', currentOption') \<Rightarrow> (options', currentOption'))"
| "parseDef (ZodStringDef a) options currentOption =
     (case parseString options currentOption of
        (Some parsedDef, options', currentOption') \<Rightarrow> parseDef parsedDef options' currentOption'
      | (None, options', currentOption') \<Rightarrow> (options', currentOption'))"
| "parseDef (ZodNumberDef a) options currentOption =
     (case parseNumber options currentOption of
        (Some parsedDef, options', currentOption') \<Rightarrow> parseDef parsedDef options' currentOption'
      | (None, options', currentOption') \<Rightarrow> (options', currentOption'))"
| "parseDef (ZodBooleanDef a) options currentOption =
     (case parseBoolean options currentOption of
        (Some parsedDef, options', currentOption') \<Rightarrow> parseDef parsedDef options' currentOption'
      | (None, options', currentOption') \<Rightarrow> (options', currentOption'))"
| "parseDef (ZodEnumDef a values) options currentOption =
     (case parseEnum values options currentOption of
        (Some parsedDef, options', currentOption') \<Rightarrow> parseDef parsedDef options' currentOption'
      | (None, options', currentOption') \<Rightarrow> (options', currentOption'))"
| "parseDef (ZodNativeEnumDef a values) options currentOption =
     (case parseNativeEnum values options currentOption of
        (Some parsedDef, options', currentOption') \<Rightarrow> parseDef parsedDef options' currentOption'
      | (None, options', currentOption') \<Rightarrow> (options', currentOption'))"
| "parseDef (ZodDefaultDef a innerType) options currentOption =
     (case parseDefault innerType options currentOption of
        (Some parsedDef, options', currentOption') \<Rightarrow> parseDef parsedDef options' currentOption'
      | (None, options', currentOption') \<Rightarrow> (options', currentOption'))"
| "parseDef (ZodIntersectionDef a left right) options currentOption =
     (case parseIntersection left right options currentOption of
        (Some parsedDef, options', currentOption') \<Rightarrow> parseDef parsedDef options' currentOption'
      | (None, options', currentOption') \<Rightarrow> (options', currentOption'))"
| "parseDef (ZodAnyDef a) options currentOption = (options, currentOption)"
| "parseDef (ZodOtherDef a k) options currentOption = (options, currentOption)"
| "parseObject [] options = options"
| "parseObject ((key, property) # properties) options =
     (let option = \<lparr>name = key, alias = defAlias property, required = True,
                     autocomplete = None, type = TString\<rparr>
      in case parseDef property options (Some option) of
           (options', Some option') \<Rightarrow> parseObject properties (options' @ [option'])
         | (options', None) \<Rightarrow> parseObject properties (options' @ [option]))"
  by pat_completeness auto

termination
  apply (relation "measure (\<lambda>x. case x of
            Inl (d, _, _) \<Rightarrow> size d
          | Inr (shape, _) \<Rightarrow> size_list (size_prod (\<lambda>_. 0) size) shape)")
  apply (auto simp: parseEffect_def parseOptional_def parseDefault_def parseString_def
      parseNumber_def parseBoolean_def parseEnum_def parseNativeEnum_def
      parseIntersection_def split: if_splits)
  done

text \<open>\<^verbatim>\<open>schemaToOptions\<close>: the loop on the root, with an empty array and no descriptor.\<close>

definition schemaToOptions :: "'k zodTypeDef \<Rightarrow> optionInfo list" where
  "schemaToOptions schema = fst (parseDef schema [] None)"

section \<open>The derivation on an object graph, with its resources\<close>















section \<open>The configuration of the tokenizer\<close>

text \<open>
  The second argument of \<^verbatim>\<open>parse(args, {alias, boolean, number, string, configuration})\<close>.
  \<^verbatim>\<open>alias\<close> is an object built by \<^verbatim>\<open>reduce\<close> from \<^verbatim>\<open>{}\<close>, a map from names to aliases;
  the test \<^verbatim>\<open>if (option.alias)\<close> is JavaScript's truthiness of an optional string:
  false for \<^verbatim>\<open>undefined\<close> and for the empty string. The assignment
  \<^verbatim>\<open>aliases[option.name] = option.alias\<close> creates or overwrites the own property of that
  name, except for the name \<^verbatim>\<open>__proto__\<close>: on an object made by \<^verbatim>\<open>{}\<close> that assignment
  calls the setter inherited from \<^verbatim>\<open>Object.prototype\<close>, which ignores a string and
  stores nothing. The map of the model holds the own properties of the object.
\<close>

fun truthy :: "string option \<Rightarrow> bool" where
  "truthy None = False"
| "truthy (Some s) = (s \<noteq> [])"

definition aliasStep :: "(string \<rightharpoonup> string) \<Rightarrow> optionInfo \<Rightarrow> (string \<rightharpoonup> string)" where
  "aliasStep aliases option =
     (if truthy (alias option)
      then (case alias option of
              Some s \<Rightarrow>
                if name option = ''__proto__'' then aliases else aliases(name option \<mapsto> s)
            | None \<Rightarrow> aliases)
      else aliases)"

record parseOpts =
  optsAlias :: "string \<rightharpoonup> string"
  optsBoolean :: "string list"
  optsNumber :: "string list"
  optsString :: "string list"

definition argvOpts :: "optionInfo list \<Rightarrow> parseOpts" where
  "argvOpts table =
     \<lparr>optsAlias = foldl aliasStep Map.empty table,
      optsBoolean = map name (filter (\<lambda>option. type option = TBoolean) table),
      optsNumber = map name (filter (\<lambda>option. type option = TNumber) table),
      optsString = map name (filter (\<lambda>option. type option = TString) table)\<rparr>"

section \<open>The order of the enumeration of a shape\<close>

text \<open>
  \<^verbatim>\<open>for (const key in properties)\<close> does not enumerate the properties of an object in
  the order in which the object got them: the keys that are array indices (the decimal
  numerals, without leading zeros, of the integers from \<open>0\<close> to \<open>2\<^sup>3\<^sup>2 - 2\<close>) come
  first, in ascending numeric order, and the other keys follow in the order of their
  creation, the order in which \<^verbatim>\<open>z.object({...})\<close> declares them. \<open>forInOrder\<close> takes the
  properties in declaration order and gives them in the order of the enumeration,
  which is the order of the list in \<open>ZodObjectDef\<close>. (A shape is an object written as
  a literal or made by spreading: all its properties are its own and enumerable, and it
  inherits no enumerable property.)
\<close>

fun digitOf :: "char \<Rightarrow> nat option" where
  "digitOf c =
     map_of [(CHR ''0'', 0), (CHR ''1'', 1), (CHR ''2'', 2), (CHR ''3'', 3), (CHR ''4'', 4),
             (CHR ''5'', 5), (CHR ''6'', 6), (CHR ''7'', 7), (CHR ''8'', 8), (CHR ''9'', 9)] c"

definition numberOf :: "string \<Rightarrow> nat" where
  "numberOf key = foldl (\<lambda>n c. case digitOf c of Some d \<Rightarrow> 10 * n + d | None \<Rightarrow> n) 0 key"

definition isArrayIndex :: "string \<Rightarrow> bool" where
  "isArrayIndex key \<longleftrightarrow>
     key \<noteq> [] \<and> list_all (\<lambda>c. digitOf c \<noteq> None) key \<and>
     (key = ''0'' \<or> hd key \<noteq> CHR ''0'') \<and> numberOf key < 2 ^ 32 - 1"

definition forInOrder :: "(string \<times> 'a) list \<Rightarrow> (string \<times> 'a) list" where
  "forInOrder properties =
     sort_key (\<lambda>(key, property). numberOf key)
       (filter (\<lambda>(key, property). isArrayIndex key) properties) @
     filter (\<lambda>(key, property). \<not> isArrayIndex key) properties"

section \<open>Notions used to state the properties\<close>

text \<open>
  \<open>chain d\<close> lists the definitions the loop of \<open>parseDef\<close> visits from \<open>d\<close>: the
  successive values of \<^verbatim>\<open>parsedDef\<close>. Its last element is the node at which the loop
  stops. (Lemma \<open>parseDef_chain\<close> below relates the two.)
\<close>

fun chain :: "'k zodTypeDef \<Rightarrow> 'k zodTypeDef list" where
  "chain (ZodEffectsDef a schema) = ZodEffectsDef a schema # chain schema"
| "chain (ZodOptionalDef a innerType) = ZodOptionalDef a innerType # chain innerType"
| "chain (ZodDefaultDef a innerType) = ZodDefaultDef a innerType # chain innerType"
| "chain (ZodIntersectionDef a left right) =
     ZodIntersectionDef a left right #
       (if typeName left \<noteq> ZodAny then chain left
        else if typeName right \<noteq> ZodAny then chain right
        else [])"
| "chain d = [d]"

text \<open>The descriptor \<open>parseObject\<close> creates for a property, before it is resolved.\<close>

definition newOption :: "string \<Rightarrow> 'k zodTypeDef \<Rightarrow> optionInfo" where
  "newOption key property =
     \<lparr>name = key, alias = defAlias property, required = True, autocomplete = None,
      type = TString\<rparr>"

text \<open>
  Two functions for the proofs: what the loop makes of a descriptor in progress, and
  the descriptors it appends from objects it meets.
\<close>

fun resolveOption :: "'k zodTypeDef \<Rightarrow> optionInfo \<Rightarrow> optionInfo" where
  "resolveOption (ZodEffectsDef a schema) option = resolveOption schema option"
| "resolveOption (ZodOptionalDef a innerType) option =
     resolveOption innerType (option\<lparr>required := False\<rparr>)"
| "resolveOption (ZodDefaultDef a innerType) option = resolveOption innerType option"
| "resolveOption (ZodIntersectionDef a left right) option =
     (if typeName left \<noteq> ZodAny then resolveOption left option
      else if typeName right \<noteq> ZodAny then resolveOption right option
      else option)"
| "resolveOption (ZodStringDef a) option = option\<lparr>type := TString\<rparr>"
| "resolveOption (ZodNumberDef a) option = option\<lparr>type := TNumber\<rparr>"
| "resolveOption (ZodBooleanDef a) option = option\<lparr>type := TBoolean\<rparr>"
| "resolveOption (ZodEnumDef a values) option =
     option\<lparr>type := TString, autocomplete := Some values\<rparr>"
| "resolveOption (ZodNativeEnumDef a values) option =
     option\<lparr>type := TString, autocomplete := Some (map fst values)\<rparr>"
| "resolveOption d option = option"

definition nestedOptions :: "'k zodTypeDef \<Rightarrow> optionInfo list" where
  "nestedOptions d = fst (parseDef d [] None)"

section \<open>The schemas of the program\<close>

text \<open>
  The schemas the program defines, as definition trees. \<^verbatim>\<open>z.enum([...])\<close> is an Enum
  node, \<^verbatim>\<open>.optional()\<close> and \<^verbatim>\<open>.default(v)\<close> wrap a node in an Optional and a Default
  node, \<^verbatim>\<open>.refine(...)\<close> in an Effects node, \<^verbatim>\<open>z.object({...})\<close> and \<^verbatim>\<open>.extend({...})\<close>
  and \<^verbatim>\<open>.strict()\<close> give Object nodes, \<^verbatim>\<open>.extend\<close> with the new properties after the old
  ones. \<^verbatim>\<open>alias('t', s)\<close> sets \<^verbatim>\<open>_def.alias\<close> of the outermost node of \<open>s\<close>, a node
  made in the argument of that call and shared with no other field, so the tree has the
  alias on that node and on no other.
\<close>

definition OutputType :: "unit zodTypeDef" where
  "OutputType = ZodEnumDef None [''csv'', ''json'', ''md'', ''text'', ''none'']"

definition globalOptionsShape :: "(string \<times> unit zodTypeDef) list" where
  "globalOptionsShape =
     [(''query'', ZodOptionalDef None (ZodStringDef None)),
      (''output'', ZodOptionalDef None OutputType),
      (''debug'', ZodDefaultDef None (ZodBooleanDef None)),
      (''verbose'', ZodDefaultDef None (ZodBooleanDef None))]"

definition globalOptions :: "unit zodTypeDef" where
  "globalOptions = ZodObjectDef None globalOptionsShape"

definition getGlobalRefinedSchema :: "unit zodTypeDef \<Rightarrow> unit zodTypeDef" where
  "getGlobalRefinedSchema schema = ZodEffectsDef None schema"

text \<open>
  \<^verbatim>\<open>enum CloudType { Public, USGov, USGovHigh, USGovDoD, China }\<close> is a numeric enum, with
  the values \<open>0\<close> to \<open>4\<close>. Its object has, for every member, the property from the name
  to the value and the reverse property from the value to the name;
  \<^verbatim>\<open>Object.getOwnPropertyNames\<close> lists the integer names first, in ascending order, then
  the others in the order of their creation.
\<close>

definition CloudType :: "(string \<times> enumValue) list" where
  "CloudType =
     [(''0'', StringValue ''Public''), (''1'', StringValue ''USGov''),
      (''2'', StringValue ''USGovHigh''), (''3'', StringValue ''USGovDoD''),
      (''4'', StringValue ''China''),
      (''Public'', NumericValue 0), (''USGov'', NumericValue 1),
      (''USGovHigh'', NumericValue 2), (''USGovDoD'', NumericValue 3),
      (''China'', NumericValue 4)]"

definition commandOptionsShape :: "(string \<times> unit zodTypeDef) list" where
  "commandOptionsShape =
     globalOptionsShape @
     [(''authType'',
         ZodDefaultDef (Some ''t'')
           (ZodOptionalDef None
              (ZodEnumDef None
                 [''certificate'', ''deviceCode'', ''password'', ''identity'',
                  ''browser'', ''secret'']))),
      (''cloud'', ZodDefaultDef None (ZodOptionalDef None (ZodNativeEnumDef None CloudType))),
      (''userName'', ZodOptionalDef (Some ''u'') (ZodStringDef None)),
      (''password'', ZodOptionalDef (Some ''p'') (ZodStringDef None)),
      (''certificateFile'',
         ZodEffectsDef (Some ''c'') (ZodOptionalDef None (ZodStringDef None))),
      (''certificateBase64Encoded'', ZodOptionalDef None (ZodStringDef None)),
      (''thumbprint'', ZodOptionalDef None (ZodStringDef None)),
      (''appId'', ZodOptionalDef None (ZodStringDef None)),
      (''tenant'', ZodOptionalDef None (ZodStringDef None)),
      (''secret'', ZodOptionalDef (Some ''s'') (ZodStringDef None)),
      (''dummyNumber'', ZodOptionalDef None (ZodNumberDef None)),
      (''dummyBoolean'', ZodOptionalDef None (ZodBooleanDef None))]"

definition commandOptions :: "unit zodTypeDef" where
  "commandOptions = ZodObjectDef None commandOptionsShape"

text \<open>The table \<^verbatim>\<open>schemaToOptions(commandOptions)\<close> (lemma \<open>schemaToOptions_commandOptions\<close>).\<close>

definition commandOptionsTable :: "optionInfo list" where
  "commandOptionsTable =
     [\<lparr>name = ''query'', alias = None, required = False, autocomplete = None,
        type = TString\<rparr>,
      \<lparr>name = ''output'', alias = None, required = False,
        autocomplete = Some [''csv'', ''json'', ''md'', ''text'', ''none''], type = TString\<rparr>,
      \<lparr>name = ''debug'', alias = None, required = True, autocomplete = None,
        type = TBoolean\<rparr>,
      \<lparr>name = ''verbose'', alias = None, required = True, autocomplete = None,
        type = TBoolean\<rparr>,
      \<lparr>name = ''authType'', alias = Some ''t'', required = False,
        autocomplete =
          Some [''certificate'', ''deviceCode'', ''password'', ''identity'', ''browser'',
                ''secret''],
        type = TString\<rparr>,
      \<lparr>name = ''cloud'', alias = None, required = False,
        autocomplete =
          Some [''0'', ''1'', ''2'', ''3'', ''4'', ''Public'', ''USGov'', ''USGovHigh'',
                ''USGovDoD'', ''China''],
        type = TString\<rparr>,
      \<lparr>name = ''userName'', alias = Some ''u'', required = False, autocomplete = None,
        type = TString\<rparr>,
      \<lparr>name = ''password'', alias = Some ''p'', required = False, autocomplete = None,
        type = TString\<rparr>,
      \<lparr>name = ''certificateFile'', alias = Some ''c'', required = False,
        autocomplete = None, type = TString\<rparr>,
      \<lparr>name = ''certificateBase64Encoded'', alias = None, required = False,
        autocomplete = None, type = TString\<rparr>,
      \<lparr>name = ''thumbprint'', alias = None, required = False, autocomplete = None,
        type = TString\<rparr>,
      \<lparr>name = ''appId'', alias = None, required = False, autocomplete = None,
        type = TString\<rparr>,
      \<lparr>name = ''tenant'', alias = None, required = False, autocomplete = None,
        type = TString\<rparr>,
      \<lparr>name = ''secret'', alias = Some ''s'', required = False, autocomplete = None,
        type = TString\<rparr>,
      \<lparr>name = ''dummyNumber'', alias = None, required = False, autocomplete = None,
        type = TNumber\<rparr>,
      \<lparr>name = ''dummyBoolean'', alias = None, required = False, autocomplete = None,
        type = TBoolean\<rparr>]"

section \<open>The loop, equation by equation\<close>

lemma parseDef_Effects: "parseDef (ZodEffectsDef a schema) options cur = parseDef schema options cur"
  by (simp add: parseEffect_def)

lemma parseDef_Optional:
  "parseDef (ZodOptionalDef a innerType) options cur =
     parseDef innerType options (map_option (\<lambda>option. option\<lparr>required := False\<rparr>) cur)"
  by (cases cur) (simp_all add: parseOptional_def)

lemma parseDef_Default: "parseDef (ZodDefaultDef a innerType) options cur = parseDef innerType options cur"
  by (simp add: parseDefault_def)

lemma parseDef_Intersection:
  "parseDef (ZodIntersectionDef a left right) options cur =
     (if typeName left \<noteq> ZodAny then parseDef left options cur
      else if typeName right \<noteq> ZodAny then parseDef right options cur
      else (options, cur))"
  by (simp add: parseIntersection_def)

lemma parseDef_String:
  "parseDef (ZodStringDef a) options cur = (options, map_option (\<lambda>option. option\<lparr>type := TString\<rparr>) cur)"
  by (cases cur) (simp_all add: parseString_def)

lemma parseDef_Number:
  "parseDef (ZodNumberDef a) options cur = (options, map_option (\<lambda>option. option\<lparr>type := TNumber\<rparr>) cur)"
  by (cases cur) (simp_all add: parseNumber_def)

lemma parseDef_Boolean:
  "parseDef (ZodBooleanDef a) options cur = (options, map_option (\<lambda>option. option\<lparr>type := TBoolean\<rparr>) cur)"
  by (cases cur) (simp_all add: parseBoolean_def)

lemma parseDef_Enum:
  "parseDef (ZodEnumDef a values) options cur =
     (options, map_option (\<lambda>option. option\<lparr>type := TString, autocomplete := Some values\<rparr>) cur)"
  by (cases cur) (simp_all add: parseEnum_def)

lemma parseDef_NativeEnum:
  "parseDef (ZodNativeEnumDef a values) options cur =
     (options, map_option (\<lambda>option. option\<lparr>type := TString, autocomplete := Some (map fst values)\<rparr>) cur)"
  by (cases cur) (simp_all add: parseNativeEnum_def)

lemmas parseDef_eqs = parseDef_Effects parseDef_Optional parseDef_Default parseDef_Intersection
  parseDef_String parseDef_Number parseDef_Boolean parseDef_Enum parseDef_NativeEnum

lemma snd_parseDef_Some: "snd (parseDef d options (Some option)) = Some (resolveOption d option)"
  by (induction d arbitrary: option)
     (simp_all add: parseDef_eqs del: parseDef.simps(1,3-10))

lemma snd_parseDef_None: "snd (parseDef d options None) = None"
  by (induction d) (simp_all add: parseDef_eqs del: parseDef.simps(1,3-10))

lemma parseObject_Cons:
  "parseObject ((key, property) # properties) options =
     parseObject properties
       (fst (parseDef property options (Some (newOption key property))) @
        [resolveOption property (newOption key property)])"
proof -
  obtain os where p: "parseDef property options (Some (newOption key property)) =
      (os, Some (resolveOption property (newOption key property)))"
    using snd_parseDef_Some [of property options "newOption key property"]
    by (cases "parseDef property options (Some (newOption key property))") simp
  show ?thesis
    using p by (simp add: newOption_def Let_def)
qed

lemma parseObject_append_aux:
  assumes "\<And>key property options cur. (key, property) \<in> set shape \<Longrightarrow>
             fst (parseDef property options cur) = options @ nestedOptions property"
  shows "parseObject shape options = options @ parseObject shape []"
  using assms
proof (induction shape arbitrary: options)
  case Nil
  then show ?case by simp
next
  case (Cons kp shape)
  obtain key property where kp: "kp = (key, property)" by (cases kp)
  have f: "\<And>os cur. fst (parseDef property os cur) = os @ nestedOptions property"
    using Cons.prems [of key property] kp by simp
  have ih: "\<And>os. parseObject shape os = os @ parseObject shape []"
  proof (rule Cons.IH)
    fix k p os c
    assume "(k, p) \<in> set shape"
    then have "(k, p) \<in> set (kp # shape)" by simp
    then show "fst (parseDef p os c) = os @ nestedOptions p" by (rule Cons.prems)
  qed
  show ?case
    unfolding kp parseObject_Cons f by (subst ih, subst (2) ih) simp
qed

lemma nestedOptions_simps:
  "nestedOptions (ZodEffectsDef a schema) = nestedOptions schema"
  "nestedOptions (ZodObjectDef a shape) = parseObject shape []"
  "nestedOptions (ZodOptionalDef a innerType) = nestedOptions innerType"
  "nestedOptions (ZodDefaultDef a innerType) = nestedOptions innerType"
  "nestedOptions (ZodIntersectionDef a left right) =
     (if typeName left \<noteq> ZodAny then nestedOptions left
      else if typeName right \<noteq> ZodAny then nestedOptions right
      else [])"
  "nestedOptions (ZodStringDef a) = []"
  "nestedOptions (ZodNumberDef a) = []"
  "nestedOptions (ZodBooleanDef a) = []"
  "nestedOptions (ZodEnumDef a values) = []"
  "nestedOptions (ZodNativeEnumDef a nvalues) = []"
  "nestedOptions (ZodAnyDef a) = []"
  "nestedOptions (ZodOtherDef a k) = []"
  by (simp_all add: nestedOptions_def parseDef_eqs del: parseDef.simps(1,3-10))

lemma fst_parseDef: "fst (parseDef d options cur) = options @ nestedOptions d"
proof (induction d arbitrary: options cur)
  case (ZodObjectDef a shape)
  have "\<And>key property options cur. (key, property) \<in> set shape \<Longrightarrow>
             fst (parseDef property options cur) = options @ nestedOptions property"
    using ZodObjectDef.IH by force
  then have "parseObject shape options = options @ parseObject shape []"
    by (rule parseObject_append_aux)
  then show ?case by (simp add: nestedOptions_simps)
qed (simp_all add: parseDef_eqs nestedOptions_simps del: parseDef.simps(1,3-10))

lemma parseDef_eq:
  "parseDef d options cur =
     (options @ nestedOptions d, case cur of None \<Rightarrow> None | Some option \<Rightarrow> Some (resolveOption d option))"
  by (cases cur; simp add: prod_eq_iff fst_parseDef snd_parseDef_Some snd_parseDef_None)

lemma parseObject_append: "parseObject shape options = options @ parseObject shape []"
  by (rule parseObject_append_aux) (rule fst_parseDef)

lemma parseObject_concat:
  "parseObject shape [] =
     concat (map (\<lambda>(key, property). nestedOptions property @ [resolveOption property (newOption key property)]) shape)"
proof (induction shape)
  case Nil
  then show ?case by simp
next
  case (Cons kp shape)
  obtain key property where kp: "kp = (key, property)" by (cases kp)
  show ?case
    unfolding kp parseObject_Cons fst_parseDef
    by (subst parseObject_append) (simp add: Cons.IH)
qed

section \<open>The loop along the chain\<close>

lemma chain_not_Nil: "chain d \<noteq> []"
  by (cases d) simp_all

lemma resolveOption_required_False:
  "resolveOption d (option\<lparr>required := False\<rparr>) = (resolveOption d option)\<lparr>required := False\<rparr>"
  by (induction d arbitrary: option) simp_all

lemma name_resolveOption: "name (resolveOption d option) = name option"
  by (induction d arbitrary: option) simp_all

lemma alias_resolveOption: "alias (resolveOption d option) = alias option"
  by (induction d arbitrary: option) simp_all

lemma required_resolveOption:
  "required (resolveOption d option) =
     (required option \<and> \<not> list_ex (\<lambda>w. typeName w = ZodOptional) (chain d))"
  by (induction d arbitrary: option) auto

lemma resolveOption_last_chain:
  "resolveOption d option =
     (if list_ex (\<lambda>w. typeName w = ZodOptional) (chain d)
      then (resolveOption (last (chain d)) option)\<lparr>required := False\<rparr>
      else resolveOption (last (chain d)) option)"
  by (induction d arbitrary: option)
     (auto simp: chain_not_Nil resolveOption_required_False)

lemma nestedOptions_last_chain: "nestedOptions d = nestedOptions (last (chain d))"
  by (induction d) (simp_all add: nestedOptions_simps chain_not_Nil)

lemma nestedOptions_no_object:
  "typeName (last (chain d)) \<noteq> ZodObject \<Longrightarrow> nestedOptions d = []"
  by (induction d) (auto simp: nestedOptions_simps chain_not_Nil split: if_splits)

lemma parseDef_chain:
  "parseDef d options cur =
     parseDef (last (chain d)) options
       (if list_ex (\<lambda>w. typeName w = ZodOptional) (chain d)
        then map_option (\<lambda>option. option\<lparr>required := False\<rparr>) cur else cur)"
  by (induction d arbitrary: cur)
     (auto simp: parseDef_eqs chain_not_Nil option.map_comp comp_def simp del: parseDef.simps(1,3-10))

lemma schemaToOptions_Object:
  "schemaToOptions (ZodObjectDef a shape) =
     concat (map (\<lambda>(key, property).
        nestedOptions property @ [resolveOption property (newOption key property)]) shape)"
  by (simp add: schemaToOptions_def parseObject_concat)

lemma parseObject_flat:
  assumes "\<forall>(key, property) \<in> set shape. typeName (last (chain property)) \<noteq> ZodObject"
  shows "parseObject shape [] =
           map (\<lambda>(key, property). resolveOption property (newOption key property)) shape"
  using assms
  by (induction shape) (auto simp: parseObject_concat nestedOptions_no_object)

lemma getParseFn_None_iff:
  "getParseFn (typeName d) = None \<longleftrightarrow>
     (\<exists>a. d = ZodAnyDef a) \<or> (\<exists>a k. d = ZodOtherDef a k)"
  by (cases d) simp_all

lemma parseDef_unrecognized:
  "getParseFn (typeName d) = None \<Longrightarrow> parseDef d options cur = (options, cur)"
  by (cases d) simp_all

section \<open>Chains of any length\<close>





section \<open>The lists and the alias map of the configuration\<close>

lemma foldl_aliasStep_other:
  "n \<notin> name ` set table \<Longrightarrow> foldl aliasStep m table n = m n"
  by (induction table arbitrary: m) (auto simp: aliasStep_def split: option.splits)

lemma aliasStep_at:
  "aliasStep m x (name x) =
     (if truthy (alias x) \<and> name x \<noteq> ''__proto__'' then alias x else m (name x))"
  by (auto simp: aliasStep_def split: option.splits)

lemma aliasStep_other: "n \<noteq> name x \<Longrightarrow> aliasStep m x n = m n"
  by (auto simp: aliasStep_def split: option.splits)

lemma foldl_aliasStep_member:
  "distinct (map name table) \<Longrightarrow> option \<in> set table \<Longrightarrow>
   foldl aliasStep m table (name option) =
     (if truthy (alias option) \<and> name option \<noteq> ''__proto__'' then alias option
      else m (name option))"
proof (induction table arbitrary: m)
  case Nil
  then show ?case by simp
next
  case (Cons x table)
  show ?case
  proof (cases "option = x")
    case True
    have "name x \<notin> name ` set table" using Cons.prems(1) by simp
    then have "foldl aliasStep (aliasStep m x) table (name x) = aliasStep m x (name x)"
      by (rule foldl_aliasStep_other)
    then show ?thesis
      using True by (simp add: aliasStep_at)
  next
    case False
    then have in_t: "option \<in> set table" using Cons.prems(2) by simp
    have "name x \<notin> name ` set table" using Cons.prems(1) by simp
    then have ne: "name option \<noteq> name x" using in_t by (metis image_eqI)
    have "foldl aliasStep (aliasStep m x) table (name option) =
        (if truthy (alias option) \<and> name option \<noteq> ''__proto__'' then alias option
         else aliasStep m x (name option))"
      using Cons.IH [of "aliasStep m x"] Cons.prems(1) in_t by simp
    moreover have "aliasStep m x (name option) = m (name option)"
      using ne by (rule aliasStep_other)
    ultimately show ?thesis by simp
  qed
qed

lemma name_in_filter:
  "distinct (map name table) \<Longrightarrow> option \<in> set table \<Longrightarrow>
   name option \<in> set (map name (filter P table)) \<longleftrightarrow> P option"
proof -
  assume d: "distinct (map name table)" and o: "option \<in> set table"
  have "inj_on name (set table)" using d by (simp add: distinct_map)
  then show ?thesis using o by (auto simp: inj_on_def)
qed

lemma names_disjoint:
  assumes "distinct (map name table)" and "\<And>x. \<not> (P x \<and> Q x)"
  shows "set (map name (filter P table)) \<inter> set (map name (filter Q table)) = {}"
proof -
  have "inj_on name (set table)" using assms(1) by (simp add: distinct_map)
  then show ?thesis using assms(2) by (auto simp: inj_on_def)
qed

section \<open>The table of the login command\<close>

lemma schemaToOptions_commandOptions: "schemaToOptions commandOptions = commandOptionsTable"
  by (simp add: commandOptions_def commandOptionsShape_def globalOptionsShape_def
      OutputType_def CloudType_def schemaToOptions_Object nestedOptions_simps newOption_def
      commandOptionsTable_def)

lemma commandOptionsShape_no_object:
  "list_all (\<lambda>(key, property). typeName (last (chain property)) \<noteq> ZodObject)
     commandOptionsShape"
  by (simp add: commandOptionsShape_def globalOptionsShape_def OutputType_def)

section \<open>The derivation with its resources, on trees and on cycles\<close>
















section \<open>The order of the enumeration\<close>

lemma set_forInOrder: "set (forInOrder properties) = set properties"
  by (auto simp: forInOrder_def)

lemma length_forInOrder: "length (forInOrder properties) = length properties"
proof -
  have "length (filter (\<lambda>(key, property). isArrayIndex key) properties) +
        length (filter (\<lambda>(key, property). \<not> isArrayIndex key) properties) = length properties"
    using sum_length_filter_compl [of "\<lambda>(key, property). isArrayIndex key" properties]
    by (simp add: case_prod_unfold)
  then show ?thesis by (simp add: forInOrder_def)
qed

lemma forInOrder_no_index:
  "\<not> list_ex (\<lambda>(key, property). isArrayIndex key) properties \<Longrightarrow>
   forInOrder properties = properties"
proof -
  assume "\<not> list_ex (\<lambda>(key, property). isArrayIndex key) properties"
  then have n: "\<forall>p \<in> set properties. \<not> (case p of (key, property) \<Rightarrow> isArrayIndex key)"
    by (simp add: list_ex_iff)
  have "filter (\<lambda>(key, property). isArrayIndex key) properties = []"
    using n by (simp add: filter_empty_conv)
  moreover have "filter (\<lambda>(key, property). \<not> isArrayIndex key) properties = properties"
    using n by (simp add: filter_id_conv split_beta)
  ultimately show ?thesis by (simp add: forInOrder_def)
qed

lemma list_all_forInOrder: "list_all P (forInOrder properties) = list_all P properties"
  by (simp add: list_all_iff set_forInOrder)

lemma schemaToOptions_flat:
  assumes "list_all (\<lambda>(key, property). typeName (last (chain property)) \<noteq> ZodObject) shape"
  shows "schemaToOptions (ZodObjectDef a shape) =
           map (\<lambda>(key, property). resolveOption property (newOption key property)) shape"
proof -
  have "\<forall>(key, property) \<in> set shape. typeName (last (chain property)) \<noteq> ZodObject"
    using assms by (simp add: list_all_iff)
  then show ?thesis
    using parseObject_flat by (simp add: schemaToOptions_def)
qed

section \<open>Chains of any length, with the resources\<close>





section \<open>The properties\<close>

text \<open>
  C1, as stated: for every schema whose root is an Object node, the derivation produces
  exactly one descriptor per declared field, in the declaration order of the field map,
  each created with the key as name, the alias of the field's node, \<open>required = True\<close>,
  type string and no autocomplete. It fails in two ways. When a field is itself an
  object: \<open>parseObject\<close> is the handler of every Object node the loop meets, so the
  descriptor of the nested field \<open>b\<close> is pushed before the one of the field \<open>a\<close> that
  contains it, and the table of a schema with one field has two entries. And when keys
  are array indices: the fields declared in the order \<open>b\<close>, \<open>2\<close>, \<open>a\<close>, \<open>1\<close> are
  enumerated, and their descriptors pushed, in the order \<open>1\<close>, \<open>2\<close>, \<open>b\<close>, \<open>a\<close>.
\<close>

theorem C1_counterexample:
  "map name (schemaToOptions
       (ZodObjectDef None [(''a'', ZodObjectDef None [(''b'', ZodStringDef None :: unit zodTypeDef)])]))
     = [''b'', ''a''] \<and>
   length (schemaToOptions
       (ZodObjectDef None [(''a'', ZodObjectDef None [(''b'', ZodStringDef None :: unit zodTypeDef)])]))
     \<noteq> length [(''a'', ZodObjectDef None [(''b'', ZodStringDef None :: unit zodTypeDef)])] \<and>
   forInOrder [(''b'', ZodStringDef None :: unit zodTypeDef), (''2'', ZodNumberDef None),
               (''a'', ZodBooleanDef None), (''1'', ZodStringDef None)] =
     [(''1'', ZodStringDef None), (''2'', ZodNumberDef None),
      (''b'', ZodStringDef None), (''a'', ZodBooleanDef None)] \<and>
   map name (schemaToOptions
       (ZodObjectDef None
          (forInOrder [(''b'', ZodStringDef None :: unit zodTypeDef), (''2'', ZodNumberDef None),
                       (''a'', ZodBooleanDef None), (''1'', ZodStringDef None)])))
     = [''1'', ''2'', ''b'', ''a''] \<and>
   map name (schemaToOptions
       (ZodObjectDef None
          (forInOrder [(''b'', ZodStringDef None :: unit zodTypeDef), (''2'', ZodNumberDef None),
                       (''a'', ZodBooleanDef None), (''1'', ZodStringDef None)])))
     \<noteq> map fst [(''b'', ZodStringDef None :: unit zodTypeDef), (''2'', ZodNumberDef None),
                 (''a'', ZodBooleanDef None), (''1'', ZodStringDef None)]"
proof -
  have f: "forInOrder [(''b'', ZodStringDef None :: unit zodTypeDef), (''2'', ZodNumberDef None),
               (''a'', ZodBooleanDef None), (''1'', ZodStringDef None)] =
     [(''1'', ZodStringDef None), (''2'', ZodNumberDef None),
      (''b'', ZodStringDef None), (''a'', ZodBooleanDef None)]"
    by (simp add: forInOrder_def isArrayIndex_def numberOf_def)
  show ?thesis
    unfolding f
    by (simp add: schemaToOptions_def parseString_def parseNumber_def parseBoolean_def)
qed

text \<open>
  C1, amended: for every schema whose root is an Object node and in which the chain of
  no declared field ends in another Object node, the table has exactly one descriptor
  per declared field, in the order in which \<^verbatim>\<open>for (const key in properties)\<close> enumerates
  the fields: those whose key is an array index first, in ascending numeric order, then
  the others in declaration order. Each descriptor is the one created with the key as
  name, the alias recorded on the field's node, \<open>required = True\<close>, no autocomplete and
  type string, as the loop leaves it, and it keeps that name and alias. When no key is
  an array index the order of the table is the declaration order.
\<close>

theorem C1_one_descriptor_per_field:
  assumes "list_all (\<lambda>(key, property). typeName (last (chain property)) \<noteq> ZodObject) declared"
  shows "list_all2
           (\<lambda>(key, property) option.
              snd (parseDef property []
                     (Some \<lparr>name = key, alias = defAlias property, required = True,
                            autocomplete = None, type = TString\<rparr>)) = Some option \<and>
              name option = key \<and> alias option = defAlias property)
           (forInOrder declared) (schemaToOptions (ZodObjectDef a (forInOrder declared))) \<and>
         length (schemaToOptions (ZodObjectDef a (forInOrder declared))) = length declared \<and>
         set (forInOrder declared) = set declared \<and>
         (\<not> list_ex (\<lambda>(key, property). isArrayIndex key) declared \<longrightarrow>
            forInOrder declared = declared \<and>
            map name (schemaToOptions (ZodObjectDef a (forInOrder declared))) = map fst declared)"
proof -
  have "list_all (\<lambda>(key, property). typeName (last (chain property)) \<noteq> ZodObject)
          (forInOrder declared)"
    using assms by (simp add: list_all_forInOrder)
  then have t: "schemaToOptions (ZodObjectDef a (forInOrder declared)) =
      map (\<lambda>(key, property). resolveOption property (newOption key property)) (forInOrder declared)"
    by (rule schemaToOptions_flat)
  have 1: "list_all2
           (\<lambda>(key, property) option.
              snd (parseDef property []
                     (Some \<lparr>name = key, alias = defAlias property, required = True,
                            autocomplete = None, type = TString\<rparr>)) = Some option \<and>
              name option = key \<and> alias option = defAlias property)
           (forInOrder declared) (schemaToOptions (ZodObjectDef a (forInOrder declared)))"
    unfolding t
    by (simp add: list_all2_map2 list_all2_same snd_parseDef_Some name_resolveOption
        alias_resolveOption newOption_def split_beta)
  have 2: "length (schemaToOptions (ZodObjectDef a (forInOrder declared))) = length declared"
    unfolding t by (simp add: length_forInOrder)
  have 3: "\<not> list_ex (\<lambda>(key, property). isArrayIndex key) declared \<longrightarrow>
            forInOrder declared = declared \<and>
            map name (schemaToOptions (ZodObjectDef a (forInOrder declared))) = map fst declared"
  proof
    assume "\<not> list_ex (\<lambda>(key, property). isArrayIndex key) declared"
    then have e: "forInOrder declared = declared"
      by (rule forInOrder_no_index)
    have "map name (schemaToOptions (ZodObjectDef a (forInOrder declared))) =
          map fst (forInOrder declared)"
      unfolding t by (simp add: name_resolveOption newOption_def split_beta)
    then show "forInOrder declared = declared \<and>
            map name (schemaToOptions (ZodObjectDef a (forInOrder declared))) = map fst declared"
      using e by simp
  qed
  show ?thesis
    using 1 2 3 set_forInOrder [of declared] by blast
qed

theorem C1_one_descriptor_per_field_witness:
  "list_all (\<lambda>(key, property). typeName (last (chain property)) \<noteq> ZodObject)
     commandOptionsShape \<and>
   \<not> list_ex (\<lambda>(key, property). isArrayIndex key) commandOptionsShape \<and>
   forInOrder commandOptionsShape = commandOptionsShape \<and>
   list_all2
     (\<lambda>(key, property) option.
        snd (parseDef property []
               (Some \<lparr>name = key, alias = defAlias property, required = True,
                      autocomplete = None, type = TString\<rparr>)) = Some option \<and>
        name option = key \<and> alias option = defAlias property)
     commandOptionsShape (schemaToOptions (ZodObjectDef None commandOptionsShape)) \<and>
   length (schemaToOptions (ZodObjectDef None commandOptionsShape)) = length commandOptionsShape \<and>
   map name (schemaToOptions (ZodObjectDef None commandOptionsShape)) = map fst commandOptionsShape \<and>
   schemaToOptions (ZodObjectDef None commandOptionsShape) = commandOptionsTable"
proof -
  have n: "\<not> list_ex (\<lambda>(key, property). isArrayIndex key) commandOptionsShape"
    by (simp add: commandOptionsShape_def globalOptionsShape_def isArrayIndex_def)
  have t: "schemaToOptions (ZodObjectDef None commandOptionsShape) = commandOptionsTable"
    using schemaToOptions_commandOptions by (simp only: commandOptions_def)
  have e: "forInOrder commandOptionsShape = commandOptionsShape"
    using C1_one_descriptor_per_field [OF commandOptionsShape_no_object, of None] n by blast
  show ?thesis
    using C1_one_descriptor_per_field [OF commandOptionsShape_no_object, of None] n t
      commandOptionsShape_no_object
    unfolding e by simp
qed

text \<open>
  C2: the handler of an Optional node sets \<open>required\<close> of the descriptor in progress to
  \<open>False\<close> and returns the inner type, with which the loop goes on. For every property
  whose chain contains an Optional node the resolved descriptor has \<open>required = False\<close>,
  and apart from that flag it is the descriptor obtained by resolving the last node of
  the chain alone: same type, same autocomplete list.
\<close>

theorem C2_optional_sets_required_false:
  "parseOptional (innerType :: 'k zodTypeDef) options (Some option) =
     (Some innerType, options, Some (option\<lparr>required := False\<rparr>)) \<and>
   parseDef (ZodOptionalDef a innerType) options (Some option) =
     parseDef innerType options (Some (option\<lparr>required := False\<rparr>)) \<and>
   (list_ex (\<lambda>w. typeName w = ZodOptional) (chain (property :: 'k zodTypeDef)) \<longrightarrow>
      (\<exists>resolved leaf.
         snd (parseDef property options (Some option)) = Some resolved \<and>
         snd (parseDef (last (chain property)) options (Some option)) = Some leaf \<and>
         required resolved = False \<and>
         type resolved = type leaf \<and>
         autocomplete resolved = autocomplete leaf \<and>
         resolved = leaf\<lparr>required := False\<rparr>))"
proof (intro conjI impI)
  show "parseOptional innerType options (Some option) =
     (Some innerType, options, Some (option\<lparr>required := False\<rparr>))"
    by (simp add: parseOptional_def)
  show "parseDef (ZodOptionalDef a innerType) options (Some option) =
     parseDef innerType options (Some (option\<lparr>required := False\<rparr>))"
    by (simp add: parseDef_Optional del: parseDef.simps)
next
  assume h: "list_ex (\<lambda>w. typeName w = ZodOptional) (chain property)"
  let ?leaf = "resolveOption (last (chain property)) option"
  have "resolveOption property option = ?leaf\<lparr>required := False\<rparr>"
    using h by (subst resolveOption_last_chain) simp
  then show "\<exists>resolved leaf.
         snd (parseDef property options (Some option)) = Some resolved \<and>
         snd (parseDef (last (chain property)) options (Some option)) = Some leaf \<and>
         required resolved = False \<and>
         type resolved = type leaf \<and>
         autocomplete resolved = autocomplete leaf \<and>
         resolved = leaf\<lparr>required := False\<rparr>"
    by (simp add: snd_parseDef_Some)
qed

theorem C2_optional_sets_required_false_witness:
  "list_ex (\<lambda>w. typeName w = ZodOptional)
     (chain (ZodDefaultDef None (ZodOptionalDef None (ZodNumberDef None :: unit zodTypeDef)))) \<and>
   snd (parseDef (ZodDefaultDef None (ZodOptionalDef None (ZodNumberDef None :: unit zodTypeDef))) []
     (Some \<lparr>name = ''n'', alias = None, required = True, autocomplete = None, type = TString\<rparr>)) =
     Some \<lparr>name = ''n'', alias = None, required = False, autocomplete = None, type = TNumber\<rparr> \<and>
   snd (parseDef (ZodNumberDef None :: unit zodTypeDef) []
     (Some \<lparr>name = ''n'', alias = None, required = True, autocomplete = None, type = TString\<rparr>)) =
     Some \<lparr>name = ''n'', alias = None, required = True, autocomplete = None, type = TNumber\<rparr>"
  using C2_optional_sets_required_false
    [of "ZodNumberDef None :: unit zodTypeDef" "[]"
        "\<lparr>name = ''n'', alias = None, required = True, autocomplete = None, type = TString\<rparr>"
        None
        "ZodDefaultDef None (ZodOptionalDef None (ZodNumberDef None))"]
  by (simp add: parseDef_eqs del: parseDef.simps)

text \<open>
  C3: the handler of a Default node returns the inner type and leaves the descriptor as
  it is, and the loop goes on with the inner type. For a property whose chain has no
  Optional node the resolved descriptor has the \<open>required\<close> flag it started with; when
  such a property is a field of an object, its descriptor in the table has
  \<open>required = True\<close>.
\<close>

theorem C3_default_keeps_required:
  "parseDefault (innerType :: 'k zodTypeDef) options currentOption =
     (Some innerType, options, currentOption) \<and>
   parseDef (ZodDefaultDef a innerType) options currentOption =
     parseDef innerType options currentOption \<and>
   (\<not> list_ex (\<lambda>w. typeName w = ZodOptional) (chain (property :: 'k zodTypeDef)) \<longrightarrow>
      (\<exists>resolved.
         snd (parseDef property options (Some option)) = Some resolved \<and>
         required resolved = required option) \<and>
      ((key, property) \<in> set shape \<longrightarrow>
         (\<exists>descriptor \<in> set (schemaToOptions (ZodObjectDef b shape)).
            snd (parseDef property []
                   (Some \<lparr>name = key, alias = defAlias property, required = True,
                          autocomplete = None, type = TString\<rparr>)) = Some descriptor \<and>
            name descriptor = key \<and> required descriptor = True)))"
proof (intro conjI impI)
  show "parseDefault innerType options currentOption = (Some innerType, options, currentOption)"
    by (simp add: parseDefault_def)
  show "parseDef (ZodDefaultDef a innerType) options currentOption =
     parseDef innerType options currentOption"
    by (simp add: parseDef_Default del: parseDef.simps)
next
  assume h: "\<not> list_ex (\<lambda>w. typeName w = ZodOptional) (chain property)"
  show "\<exists>resolved.
         snd (parseDef property options (Some option)) = Some resolved \<and>
         required resolved = required option"
    using h by (simp add: snd_parseDef_Some required_resolveOption)
  assume m: "(key, property) \<in> set shape"
  let ?descriptor = "resolveOption property (newOption key property)"
  have "?descriptor \<in> set (schemaToOptions (ZodObjectDef b shape))"
    using m by (force simp: schemaToOptions_Object)
  moreover have "snd (parseDef property []
                   (Some \<lparr>name = key, alias = defAlias property, required = True,
                          autocomplete = None, type = TString\<rparr>)) = Some ?descriptor"
    by (simp add: snd_parseDef_Some newOption_def)
  moreover have "name ?descriptor = key \<and> required ?descriptor = True"
    using h by (simp add: name_resolveOption required_resolveOption newOption_def)
  ultimately show "\<exists>descriptor \<in> set (schemaToOptions (ZodObjectDef b shape)).
            snd (parseDef property []
                   (Some \<lparr>name = key, alias = defAlias property, required = True,
                          autocomplete = None, type = TString\<rparr>)) = Some descriptor \<and>
            name descriptor = key \<and> required descriptor = True"
    by blast
qed

theorem C3_default_keeps_required_witness:
  "\<not> list_ex (\<lambda>w. typeName w = ZodOptional)
       (chain (ZodDefaultDef None (ZodBooleanDef None :: unit zodTypeDef))) \<and>
   (''debug'', ZodDefaultDef None (ZodBooleanDef None)) \<in> set globalOptionsShape \<and>
   (\<exists>descriptor \<in> set (schemaToOptions (ZodObjectDef None globalOptionsShape)).
      descriptor =
        \<lparr>name = ''debug'', alias = None, required = True, autocomplete = None,
         type = TBoolean\<rparr>)"
  using C3_default_keeps_required
    [of "ZodBooleanDef None :: unit zodTypeDef" "[]" None None
        "ZodDefaultDef None (ZodBooleanDef None)"
        "\<lparr>name = ''debug'', alias = None, required = True, autocomplete = None, type = TString\<rparr>"
        "''debug''" globalOptionsShape None]
  by (simp add: globalOptionsShape_def parseDef_eqs del: parseDef.simps)

text \<open>
  C4, as stated: the handler of an Intersection node selects the child that is not
  \<open>ZodAny\<close>, and resolution halts when both children are \<open>ZodAny\<close> or neither is. It
  fails when neither child is \<open>ZodAny\<close>: \<open>parseIntersection\<close> tests the left child
  first and returns it, so resolution goes on with the left child and, here, writes
  the type number.
\<close>

theorem C4_counterexample:
  "typeName (ZodNumberDef None :: unit zodTypeDef) \<noteq> ZodAny \<and>
   typeName (ZodBooleanDef None :: unit zodTypeDef) \<noteq> ZodAny \<and>
   parseIntersection (ZodNumberDef None) (ZodBooleanDef None :: unit zodTypeDef) []
       (Some \<lparr>name = ''n'', alias = None, required = True, autocomplete = None, type = TString\<rparr>) =
     (Some (ZodNumberDef None), [],
      Some \<lparr>name = ''n'', alias = None, required = True, autocomplete = None, type = TString\<rparr>) \<and>
   schemaToOptions
       (ZodObjectDef None
          [(''n'', ZodIntersectionDef None (ZodNumberDef None) (ZodBooleanDef None :: unit zodTypeDef))]) =
     [\<lparr>name = ''n'', alias = None, required = True, autocomplete = None, type = TNumber\<rparr>]"
  by (simp add: parseIntersection_def schemaToOptions_def parseNumber_def)

text \<open>
  C4, amended: the handler of an Intersection node returns the left child when the left
  child is not \<open>ZodAny\<close>, otherwise the right child when the right child is not
  \<open>ZodAny\<close>, and resolution goes on with the child returned; it returns no child, and
  resolution stops at the node, only when both children are \<open>ZodAny\<close>. So the table of
  an intersection is the table of the child selected.
\<close>

theorem C4_intersection_first_child_not_any:
  "parseIntersection (left :: 'k zodTypeDef) right options currentOption =
     (if typeName left \<noteq> ZodAny then Some left
      else if typeName right \<noteq> ZodAny then Some right
      else None,
      options, currentOption) \<and>
   parseDef (ZodIntersectionDef a left right) options currentOption =
     (if typeName left \<noteq> ZodAny then parseDef left options currentOption
      else if typeName right \<noteq> ZodAny then parseDef right options currentOption
      else (options, currentOption)) \<and>
   schemaToOptions (ZodIntersectionDef a left right) =
     (if typeName left \<noteq> ZodAny then schemaToOptions left
      else if typeName right \<noteq> ZodAny then schemaToOptions right
      else [])"
  by (simp add: parseIntersection_def schemaToOptions_def)




text \<open>
  C6, as stated: the handler of a NativeEnum node sets the autocomplete list to the
  enum's defined names, not its values. It fails for a numeric enum, such as the
  program's \<open>CloudType\<close>: \<^verbatim>\<open>Object.getOwnPropertyNames\<close> also returns the names of the
  reverse properties, which are the values \<open>0\<close> to \<open>4\<close> written as strings, so the list
  of the option \<open>cloud\<close> is not the list of the five names the enum defines.
\<close>

theorem C6_counterexample:
  "schemaToOptions (ZodObjectDef None [(''cloud'', ZodNativeEnumDef None CloudType :: unit zodTypeDef)]) =
     [\<lparr>name = ''cloud'', alias = None, required = True,
       autocomplete =
         Some [''0'', ''1'', ''2'', ''3'', ''4'', ''Public'', ''USGov'', ''USGovHigh'',
               ''USGovDoD'', ''China''],
       type = TString\<rparr>] \<and>
   schemaToOptions (ZodObjectDef None [(''cloud'', ZodNativeEnumDef None CloudType :: unit zodTypeDef)]) \<noteq>
     [\<lparr>name = ''cloud'', alias = None, required = True,
       autocomplete = Some [''Public'', ''USGov'', ''USGovHigh'', ''USGovDoD'', ''China''],
       type = TString\<rparr>]"
  by (simp add: schemaToOptions_Object nestedOptions_simps newOption_def CloudType_def)

text \<open>
  C6, amended: the handler of a NativeEnum node sets the type of the descriptor in
  progress to string and its autocomplete list to the names of the own properties of
  the object \<^verbatim>\<open>values\<close> (never the values stored under them), and returns no further
  definition, so the loop stops. A property whose chain ends in a NativeEnum node is
  resolved to that type and that list.
\<close>

theorem C6_native_enum_names:
  "parseNativeEnum values options (Some option) =
     (None :: 'k zodTypeDef option, options,
      Some (option\<lparr>type := TString, autocomplete := Some (map fst values)\<rparr>)) \<and>
   parseDef (ZodNativeEnumDef a values :: 'k zodTypeDef) options (Some option) =
     (options, Some (option\<lparr>type := TString, autocomplete := Some (map fst values)\<rparr>)) \<and>
   (last (chain (property :: 'k zodTypeDef)) = ZodNativeEnumDef a values \<longrightarrow>
      (\<exists>resolved.
         parseDef property options (Some option) = (options, Some resolved) \<and>
         type resolved = TString \<and>
         autocomplete resolved = Some (map fst values)))"
proof (intro conjI impI)
  show "parseNativeEnum values options (Some option) =
     (None :: 'k zodTypeDef option, options,
      Some (option\<lparr>type := TString, autocomplete := Some (map fst values)\<rparr>))"
    by (simp add: parseNativeEnum_def)
  show "parseDef (ZodNativeEnumDef a values :: 'k zodTypeDef) options (Some option) =
     (options, Some (option\<lparr>type := TString, autocomplete := Some (map fst values)\<rparr>))"
    by (simp add: parseDef_NativeEnum del: parseDef.simps)
next
  assume h: "last (chain property) = ZodNativeEnumDef a values"
  show "\<exists>resolved.
         parseDef property options (Some option) = (options, Some resolved) \<and>
         type resolved = TString \<and>
         autocomplete resolved = Some (map fst values)"
    by (subst parseDef_chain) (simp add: h parseDef_NativeEnum del: parseDef.simps)
qed

theorem C6_native_enum_names_witness:
  "last (chain (ZodDefaultDef None (ZodOptionalDef None (ZodNativeEnumDef None CloudType :: unit zodTypeDef)))) =
     ZodNativeEnumDef None CloudType \<and>
   parseDef (ZodDefaultDef None (ZodOptionalDef None (ZodNativeEnumDef None CloudType :: unit zodTypeDef))) []
     (Some \<lparr>name = ''cloud'', alias = None, required = True, autocomplete = None, type = TString\<rparr>) =
     ([], Some \<lparr>name = ''cloud'', alias = None, required = False,
               autocomplete =
                 Some [''0'', ''1'', ''2'', ''3'', ''4'', ''Public'', ''USGov'', ''USGovHigh'',
                       ''USGovDoD'', ''China''],
               type = TString\<rparr>)"
  using C6_native_enum_names
    [of CloudType "[]"
        "\<lparr>name = ''cloud'', alias = None, required = True, autocomplete = None, type = TString\<rparr>"
        None
        "ZodDefaultDef None (ZodOptionalDef None (ZodNativeEnumDef None CloudType :: unit zodTypeDef))"]
  by (simp add: parseDef_eqs CloudType_def del: parseDef.simps)

text \<open>
  C7: the handler of an Enum node sets the type of the descriptor in progress to string
  and its autocomplete list to the array \<^verbatim>\<open>values\<close>, in its order, and returns no further
  definition, so the loop stops. A property whose chain ends in an Enum node is resolved
  to that type and that list.
\<close>

theorem C7_enum_values:
  "parseEnum values options (Some option) =
     (None :: 'k zodTypeDef option, options,
      Some (option\<lparr>type := TString, autocomplete := Some values\<rparr>)) \<and>
   parseDef (ZodEnumDef a values :: 'k zodTypeDef) options (Some option) =
     (options, Some (option\<lparr>type := TString, autocomplete := Some values\<rparr>)) \<and>
   (last (chain (property :: 'k zodTypeDef)) = ZodEnumDef a values \<longrightarrow>
      (\<exists>resolved.
         parseDef property options (Some option) = (options, Some resolved) \<and>
         type resolved = TString \<and>
         autocomplete resolved = Some values))"
proof (intro conjI impI)
  show "parseEnum values options (Some option) =
     (None :: 'k zodTypeDef option, options,
      Some (option\<lparr>type := TString, autocomplete := Some values\<rparr>))"
    by (simp add: parseEnum_def)
  show "parseDef (ZodEnumDef a values :: 'k zodTypeDef) options (Some option) =
     (options, Some (option\<lparr>type := TString, autocomplete := Some values\<rparr>))"
    by (simp add: parseDef_Enum del: parseDef.simps)
next
  assume h: "last (chain property) = ZodEnumDef a values"
  show "\<exists>resolved.
         parseDef property options (Some option) = (options, Some resolved) \<and>
         type resolved = TString \<and>
         autocomplete resolved = Some values"
    by (subst parseDef_chain) (simp add: h parseDef_Enum del: parseDef.simps)
qed

theorem C7_enum_values_witness:
  "last (chain (ZodOptionalDef None OutputType)) =
     ZodEnumDef None [''csv'', ''json'', ''md'', ''text'', ''none''] \<and>
   parseDef (ZodOptionalDef None OutputType) []
     (Some \<lparr>name = ''output'', alias = None, required = True, autocomplete = None, type = TString\<rparr>) =
     ([], Some \<lparr>name = ''output'', alias = None, required = False,
               autocomplete = Some [''csv'', ''json'', ''md'', ''text'', ''none''],
               type = TString\<rparr>)"
  using C7_enum_values
    [of "[''csv'', ''json'', ''md'', ''text'', ''none'']" "[]"
        "\<lparr>name = ''output'', alias = None, required = True, autocomplete = None, type = TString\<rparr>"
        None "ZodOptionalDef None OutputType"]
  by (simp add: parseDef_eqs OutputType_def del: parseDef.simps)

text \<open>
  C8: when \<open>getParseFn\<close> has no handler for the discriminant of a node, the loop stops
  there and leaves the array and the descriptor as they are. A field whose outermost
  node is such a node keeps the descriptor it was created with; after wrappers, the
  descriptor keeps what the wrappers wrote (\<open>required = False\<close> after an Optional
  node). The result is a value: nothing is raised.
\<close>

theorem C8_unrecognized_node_ignored:
  assumes "getParseFn (typeName (d :: 'k zodTypeDef)) = None"
  shows "parseDef d options currentOption = (options, currentOption) \<and>
         schemaToOptions (ZodObjectDef a [(key, d)]) =
           [\<lparr>name = key, alias = defAlias d, required = True, autocomplete = None,
             type = TString\<rparr>] \<and>
         parseDef (ZodOptionalDef b d) options (Some option) =
           (options, Some (option\<lparr>required := False\<rparr>)) \<and>
         (last (chain (property :: 'k zodTypeDef)) = d \<longrightarrow>
            parseDef property options currentOption =
              (options,
               if list_ex (\<lambda>w. typeName w = ZodOptional) (chain property)
               then map_option (\<lambda>option. option\<lparr>required := False\<rparr>) currentOption
               else currentOption))"
proof (intro conjI impI)
  show "parseDef d options currentOption = (options, currentOption)"
    using assms by (rule parseDef_unrecognized)
  show "schemaToOptions (ZodObjectDef a [(key, d)]) =
           [\<lparr>name = key, alias = defAlias d, required = True, autocomplete = None,
             type = TString\<rparr>]"
    by (simp add: schemaToOptions_def parseDef_unrecognized [OF assms])
  show "parseDef (ZodOptionalDef b d) options (Some option) =
           (options, Some (option\<lparr>required := False\<rparr>))"
    by (simp add: parseDef_Optional parseDef_unrecognized [OF assms] del: parseDef.simps)
next
  assume "last (chain property) = d"
  then show "parseDef property options currentOption =
              (options,
               if list_ex (\<lambda>w. typeName w = ZodOptional) (chain property)
               then map_option (\<lambda>option. option\<lparr>required := False\<rparr>) currentOption
               else currentOption)"
    using parseDef_chain [of property options currentOption] parseDef_unrecognized [OF assms]
    by simp
qed

theorem C8_unrecognized_node_ignored_witness:
  "getParseFn (typeName (ZodOtherDef None ''ZodArray'')) = None \<and>
   schemaToOptions (ZodObjectDef None [(''files'', ZodOtherDef None ''ZodArray'')]) =
     [\<lparr>name = ''files'', alias = None, required = True, autocomplete = None, type = TString\<rparr>] \<and>
   last (chain (ZodDefaultDef None (ZodOptionalDef None (ZodOtherDef None ''ZodArray'')))) =
     ZodOtherDef None ''ZodArray'' \<and>
   parseDef (ZodDefaultDef None (ZodOptionalDef None (ZodOtherDef None ''ZodArray''))) []
       (Some \<lparr>name = ''files'', alias = None, required = True, autocomplete = None, type = TString\<rparr>) =
     ([], Some \<lparr>name = ''files'', alias = None, required = False, autocomplete = None,
               type = TString\<rparr>)"
proof -
  have h: "getParseFn (typeName (ZodOtherDef None ''ZodArray'')) = None"
    by simp
  show ?thesis
    using h C8_unrecognized_node_ignored
      [OF h, of "[]"
         "Some \<lparr>name = ''files'', alias = None, required = True, autocomplete = None, type = TString\<rparr>"
         None "''files''" None
         "\<lparr>name = ''files'', alias = None, required = True, autocomplete = None, type = TString\<rparr>"
         "ZodDefaultDef None (ZodOptionalDef None (ZodOtherDef None ''ZodArray''))"]
    by simp
qed

text \<open>
  C9, as stated: for every table, every option name is in exactly one of the three
  type lists, and the alias map has an entry exactly for the options that carry an
  alias. It fails on the table of an object with a nested object whose field has the
  name of the outer one (\<open>n\<close> is in the number list and in the string list); on an
  option whose alias is the empty string (set by \<^verbatim>\<open>alias('', ...)\<close>): the test
  \<^verbatim>\<open>if (option.alias)\<close> is false for it, and the map has no entry; and on an option
  of the name \<^verbatim>\<open>__proto__\<close> with the alias \<open>t\<close>: the assignment stores nothing, and
  the map has no entry.
\<close>

theorem C9_counterexample:
  "schemaToOptions (ZodObjectDef None [(''n'', ZodObjectDef None [(''n'', ZodNumberDef None :: unit zodTypeDef)])]) =
     [\<lparr>name = ''n'', alias = None, required = True, autocomplete = None, type = TNumber\<rparr>,
      \<lparr>name = ''n'', alias = None, required = True, autocomplete = None, type = TString\<rparr>] \<and>
   ''n'' \<in> set (optsNumber (argvOpts
     [\<lparr>name = ''n'', alias = None, required = True, autocomplete = None, type = TNumber\<rparr>,
      \<lparr>name = ''n'', alias = None, required = True, autocomplete = None, type = TString\<rparr>])) \<and>
   ''n'' \<in> set (optsString (argvOpts
     [\<lparr>name = ''n'', alias = None, required = True, autocomplete = None, type = TNumber\<rparr>,
      \<lparr>name = ''n'', alias = None, required = True, autocomplete = None, type = TString\<rparr>])) \<and>
   schemaToOptions (ZodObjectDef None [(''a'', ZodStringDef (Some []) :: unit zodTypeDef)]) =
     [\<lparr>name = ''a'', alias = Some [], required = True, autocomplete = None, type = TString\<rparr>] \<and>
   optsAlias (argvOpts
     [\<lparr>name = ''a'', alias = Some [], required = True, autocomplete = None, type = TString\<rparr>]) ''a''
     = None \<and>
   schemaToOptions (ZodObjectDef None [(''__proto__'', ZodStringDef (Some ''t'') :: unit zodTypeDef)]) =
     [\<lparr>name = ''__proto__'', alias = Some ''t'', required = True, autocomplete = None,
       type = TString\<rparr>] \<and>
   optsAlias (argvOpts
     [\<lparr>name = ''__proto__'', alias = Some ''t'', required = True, autocomplete = None,
       type = TString\<rparr>]) ''__proto__''
     = None"
  by (simp add: schemaToOptions_def parseNumber_def parseString_def argvOpts_def aliasStep_def)

text \<open>
  C9, amended: for every table whose names are pairwise distinct, the three type lists
  together hold exactly the names of the table, no name twice; the name of an option is
  in the string, number or boolean list exactly when the option has that type; the
  alias map has entries for names of the table only, and the entry of an option's name
  is its alias when the alias is a non-empty string and the name is not \<^verbatim>\<open>__proto__\<close>,
  and absent otherwise.
\<close>

theorem C9_tokenizer_configuration:
  assumes "distinct (map name table)"
  shows "set (optsString (argvOpts table)) \<union> set (optsNumber (argvOpts table)) \<union>
           set (optsBoolean (argvOpts table)) = set (map name table) \<and>
         distinct (optsString (argvOpts table) @ optsNumber (argvOpts table) @
                   optsBoolean (argvOpts table)) \<and>
         dom (optsAlias (argvOpts table)) \<subseteq> set (map name table) \<and>
         (\<forall>option \<in> set table.
            (name option \<in> set (optsString (argvOpts table)) \<longleftrightarrow> type option = TString) \<and>
            (name option \<in> set (optsNumber (argvOpts table)) \<longleftrightarrow> type option = TNumber) \<and>
            (name option \<in> set (optsBoolean (argvOpts table)) \<longleftrightarrow> type option = TBoolean) \<and>
            optsAlias (argvOpts table) (name option) =
              (if truthy (alias option) \<and> name option \<noteq> ''__proto__'' then alias option
               else None))"
proof (intro conjI ballI)
  show "set (optsString (argvOpts table)) \<union> set (optsNumber (argvOpts table)) \<union>
           set (optsBoolean (argvOpts table)) = set (map name table)"
  proof -
    have "\<And>option. type option = TString \<or> type option = TNumber \<or> type option = TBoolean"
      by (metis optionType.exhaust)
    then show ?thesis
      by (auto simp: argvOpts_def)
  qed
  show "distinct (optsString (argvOpts table) @ optsNumber (argvOpts table) @
                   optsBoolean (argvOpts table))"
  proof -
    have d: "\<And>P. distinct (map name (filter P table))"
      using assms by (simp add: distinct_map_filter)
    have "set (optsString (argvOpts table)) \<inter> set (optsNumber (argvOpts table)) = {}"
      using names_disjoint [OF assms, of "\<lambda>option. type option = TString"
          "\<lambda>option. type option = TNumber"]
      by (simp add: argvOpts_def)
    moreover have "set (optsString (argvOpts table)) \<inter> set (optsBoolean (argvOpts table)) = {}"
      using names_disjoint [OF assms, of "\<lambda>option. type option = TString"
          "\<lambda>option. type option = TBoolean"]
      by (simp add: argvOpts_def)
    moreover have "set (optsNumber (argvOpts table)) \<inter> set (optsBoolean (argvOpts table)) = {}"
      using names_disjoint [OF assms, of "\<lambda>option. type option = TNumber"
          "\<lambda>option. type option = TBoolean"]
      by (simp add: argvOpts_def)
    ultimately show ?thesis
      using d by (simp add: argvOpts_def Int_Un_distrib)
  qed
  show "dom (optsAlias (argvOpts table)) \<subseteq> set (map name table)"
  proof
    fix n assume "n \<in> dom (optsAlias (argvOpts table))"
    then have ne: "foldl aliasStep Map.empty table n \<noteq> None"
      by (auto simp: argvOpts_def)
    show "n \<in> set (map name table)"
    proof (rule ccontr)
      assume "n \<notin> set (map name table)"
      then have "n \<notin> name ` set table" by simp
      then have "foldl aliasStep Map.empty table n = None"
        by (simp add: foldl_aliasStep_other)
      with ne show False by simp
    qed
  qed
next
  fix option assume o: "option \<in> set table"
  show "name option \<in> set (optsString (argvOpts table)) \<longleftrightarrow> type option = TString"
    using name_in_filter [OF assms o] by (simp add: argvOpts_def)
  show "name option \<in> set (optsNumber (argvOpts table)) \<longleftrightarrow> type option = TNumber"
    using name_in_filter [OF assms o] by (simp add: argvOpts_def)
  show "name option \<in> set (optsBoolean (argvOpts table)) \<longleftrightarrow> type option = TBoolean"
    using name_in_filter [OF assms o] by (simp add: argvOpts_def)
  show "optsAlias (argvOpts table) (name option) =
              (if truthy (alias option) \<and> name option \<noteq> ''__proto__'' then alias option
               else None)"
    using foldl_aliasStep_member [OF assms o, of Map.empty] by (simp add: argvOpts_def)
qed

theorem C9_tokenizer_configuration_witness:
  "distinct (map name commandOptionsTable) \<and>
   optsString (argvOpts commandOptionsTable) =
     [''query'', ''output'', ''authType'', ''cloud'', ''userName'', ''password'',
      ''certificateFile'', ''certificateBase64Encoded'', ''thumbprint'', ''appId'', ''tenant'',
      ''secret''] \<and>
   optsNumber (argvOpts commandOptionsTable) = [''dummyNumber''] \<and>
   optsBoolean (argvOpts commandOptionsTable) = [''debug'', ''verbose'', ''dummyBoolean''] \<and>
   optsAlias (argvOpts commandOptionsTable) ''authType'' = Some ''t'' \<and>
   optsAlias (argvOpts commandOptionsTable) ''query'' = None \<and>
   dom (optsAlias (argvOpts commandOptionsTable)) \<subseteq> set (map name commandOptionsTable)"
proof -
  have h: "distinct (map name commandOptionsTable)"
    by (simp add: commandOptionsTable_def)
  have l: "optsString (argvOpts commandOptionsTable) =
     [''query'', ''output'', ''authType'', ''cloud'', ''userName'', ''password'',
      ''certificateFile'', ''certificateBase64Encoded'', ''thumbprint'', ''appId'', ''tenant'',
      ''secret'']"
    "optsNumber (argvOpts commandOptionsTable) = [''dummyNumber'']"
    "optsBoolean (argvOpts commandOptionsTable) = [''debug'', ''verbose'', ''dummyBoolean'']"
    by (simp_all add: commandOptionsTable_def argvOpts_def)
  have a: "optsAlias (argvOpts commandOptionsTable) ''authType'' = Some ''t''"
    "optsAlias (argvOpts commandOptionsTable) ''query'' = None"
    by (simp_all add: commandOptionsTable_def argvOpts_def aliasStep_def)
  show ?thesis
    using h l a C9_tokenizer_configuration [OF h] by blast
qed

text \<open>
  C10, as stated: for every schema whose root node is not an Object, \<open>schemaToOptions\<close>
  returns the empty table. It fails for a root that wraps an object, such as the
  refined schema \<^verbatim>\<open>getGlobalRefinedSchema(globalOptions)\<close>: the root is an Effects node,
  the loop unwraps it and reaches the object.
\<close>

theorem C10_counterexample:
  "typeName (getGlobalRefinedSchema globalOptions) \<noteq> ZodObject \<and>
   schemaToOptions (getGlobalRefinedSchema globalOptions) =
     [\<lparr>name = ''query'', alias = None, required = False, autocomplete = None, type = TString\<rparr>,
      \<lparr>name = ''output'', alias = None, required = False,
        autocomplete = Some [''csv'', ''json'', ''md'', ''text'', ''none''], type = TString\<rparr>,
      \<lparr>name = ''debug'', alias = None, required = True, autocomplete = None, type = TBoolean\<rparr>,
      \<lparr>name = ''verbose'', alias = None, required = True, autocomplete = None,
        type = TBoolean\<rparr>]"
  by (simp add: getGlobalRefinedSchema_def globalOptions_def globalOptionsShape_def
      OutputType_def schemaToOptions_def parseDef_Effects schemaToOptions_Object [unfolded schemaToOptions_def]
      nestedOptions_simps newOption_def del: parseDef.simps)

text \<open>
  C10, amended: for every schema whose chain from the root does not end in an Object
  node (a bare leaf, or wrappers down to a leaf), \<open>schemaToOptions\<close> returns the empty
  table, and the handlers write nothing, there being no descriptor in progress.
\<close>

theorem C10_no_object_empty_table:
  assumes "typeName (last (chain schema)) \<noteq> ZodObject"
  shows "schemaToOptions schema = [] \<and> parseDef schema [] None = ([], None)"
  using assms by (simp add: schemaToOptions_def parseDef_eq nestedOptions_no_object)

theorem C10_no_object_empty_table_witness:
  "typeName (last (chain (ZodDefaultDef None (ZodOptionalDef None OutputType)))) \<noteq> ZodObject \<and>
   schemaToOptions (ZodDefaultDef None (ZodOptionalDef None OutputType)) = []"
proof -
  have h: "typeName (last (chain (ZodDefaultDef None (ZodOptionalDef None OutputType)))) \<noteq> ZodObject"
    by (simp add: OutputType_def)
  show ?thesis
    using h C10_no_object_empty_table [OF h] by simp
qed

end
